theory Spec2Isabelle
  imports Main
begin

section \<open>Strings\<close>

text \<open>
  JavaScript strings are modelled as \<open>string\<close>, holding their UTF-8 bytes. The module
  uses three string operations: \<open>s.indexOf(p) !== -1\<close> (here \<open>contains s p\<close>), \<open>s.trim()\<close>
  and \<open>s.split('-')\<close>.
\<close>

fun startsWith :: "string \<Rightarrow> string \<Rightarrow> bool" where
  "startsWith s [] = True"
| "startsWith [] (p # ps) = False"
| "startsWith (c # cs) (p # ps) = (c = p \<and> startsWith cs ps)"

fun contains :: "string \<Rightarrow> string \<Rightarrow> bool" where
  "contains [] p = (p = [])"
| "contains (c # cs) p = (startsWith (c # cs) p \<or> contains cs p)"

definition isWhiteSpace :: "char \<Rightarrow> bool" where
  "isWhiteSpace c =
     (c = CHR '' '' \<or> c = CHR 0x09 \<or> c = CHR 0x0A \<or> c = CHR 0x0B \<or> c = CHR 0x0C \<or> c = CHR 0x0D)"

text \<open>
  \<open>trim\<close> removes white space and line terminators from both ends: the six ASCII
  characters and the code points U+00A0, U+1680, U+2000 to U+200A, U+2028, U+2029,
  U+202F, U+205F, U+3000 and U+FEFF, here as their UTF-8 byte sequences.
\<close>

definition whiteSpaces :: "string list" where
  "whiteSpaces =
     [[CHR '' ''], [CHR 0x09], [CHR 0x0A], [CHR 0x0B], [CHR 0x0C], [CHR 0x0D],
      [CHR 0xC2, CHR 0xA0], [CHR 0xE1, CHR 0x9A, CHR 0x80],
      [CHR 0xE2, CHR 0x80, CHR 0x80], [CHR 0xE2, CHR 0x80, CHR 0x81],
      [CHR 0xE2, CHR 0x80, CHR 0x82], [CHR 0xE2, CHR 0x80, CHR 0x83],
      [CHR 0xE2, CHR 0x80, CHR 0x84], [CHR 0xE2, CHR 0x80, CHR 0x85],
      [CHR 0xE2, CHR 0x80, CHR 0x86], [CHR 0xE2, CHR 0x80, CHR 0x87],
      [CHR 0xE2, CHR 0x80, CHR 0x88], [CHR 0xE2, CHR 0x80, CHR 0x89],
      [CHR 0xE2, CHR 0x80, CHR 0x8A], [CHR 0xE2, CHR 0x80, CHR 0xA8],
      [CHR 0xE2, CHR 0x80, CHR 0xA9], [CHR 0xE2, CHR 0x80, CHR 0xAF],
      [CHR 0xE2, CHR 0x81, CHR 0x9F], [CHR 0xE3, CHR 0x80, CHR 0x80],
      [CHR 0xEF, CHR 0xBB, CHR 0xBF]]"

function stripLeading :: "string list \<Rightarrow> string \<Rightarrow> string" where
  "stripLeading ws s =
     (case find (\<lambda>w. w \<noteq> [] \<and> startsWith s w) ws of
        None \<Rightarrow> s
      | Some w \<Rightarrow> stripLeading ws (drop (length w) s))"
  by pat_completeness auto
termination
proof (relation "measure (\<lambda>(ws, s). length s)")
  show "wf (measure (\<lambda>(ws, s). length s))" by simp
next
  fix ws :: "string list" and s w :: string
  assume "find (\<lambda>w. w \<noteq> [] \<and> startsWith s w) ws = Some w"
  then have "w \<noteq> []" and "startsWith s w"
    by (auto simp: find_Some_iff)
  then have "s \<noteq> []" by (cases s; cases w) simp_all
  with \<open>w \<noteq> []\<close> show "((ws, drop (length w) s), (ws, s)) \<in> measure (\<lambda>(ws, s). length s)"
    by simp
qed

definition trim :: "string \<Rightarrow> string" where
  "trim s = rev (stripLeading (map rev whiteSpaces) (rev (stripLeading whiteSpaces s)))"

fun splitBy :: "(char \<Rightarrow> bool) \<Rightarrow> string \<Rightarrow> string list" where
  "splitBy d [] = [[]]"
| "splitBy d (c # cs) =
     (if d c then [] # splitBy d cs
      else (case splitBy d cs of [] \<Rightarrow> [[c]] | w # ws \<Rightarrow> (c # w) # ws))"

definition split :: "char \<Rightarrow> string \<Rightarrow> string list" where
  "split d s = splitBy (\<lambda>c. c = d) s"

section \<open>The parsed document\<close>

text \<open>
  Modelled from the spec: the markup parser (the \<open>dom-parser\<close> package) is not part of
  the source. The extraction works on the tree the parser returns; the tree is modelled
  with the queries the source calls on it: \<open>getElementsByClassName\<close> and
  \<open>getElementsByTagName\<close> (all descendants in document order), \<open>attributes\<close>
  (name/value pairs in markup order), \<open>textContent\<close>, \<open>firstChild\<close> and \<open>lastChild\<close>.
  The root of a tree stands for the document (or the element) the query is called on; a
  class matches when it is one of the blank-separated words of the \<open>class\<close> attribute.
\<close>

datatype attribute = Attr (attr_name: string) (attr_value: string)

datatype node = Element string "attribute list" "node list" | Text string

fun attributes :: "node \<Rightarrow> attribute list" where
  "attributes (Element t as cs) = as"
| "attributes (Text s) = []"

fun childNodes :: "node \<Rightarrow> node list" where
  "childNodes (Element t as cs) = cs"
| "childNodes (Text s) = []"

fun nodeName :: "node \<Rightarrow> string" where
  "nodeName (Element t as cs) = t"
| "nodeName (Text s) = ''#text''"

fun textContent :: "node \<Rightarrow> string" where
  "textContent (Text s) = s"
| "textContent (Element t as cs) = concat (map textContent cs)"

fun descendants :: "node \<Rightarrow> node list" where
  "descendants (Text s) = []"
| "descendants (Element t as cs) = concat (map (\<lambda>c. c # descendants c) cs)"

definition getAttribute :: "string \<Rightarrow> node \<Rightarrow> string option" where
  "getAttribute n e = map_option attr_value (find (\<lambda>a. attr_name a = n) (attributes e))"

definition hasClass :: "string \<Rightarrow> node \<Rightarrow> bool" where
  "hasClass cls e =
     (case getAttribute ''class'' e of
        None \<Rightarrow> False
      | Some v \<Rightarrow> cls \<in> set (splitBy isWhiteSpace v))"

definition getElementsByClassName :: "string \<Rightarrow> node \<Rightarrow> node list" where
  "getElementsByClassName cls n = filter (hasClass cls) (descendants n)"

definition getElementsByTagName :: "string \<Rightarrow> node \<Rightarrow> node list" where
  "getElementsByTagName tag n = filter (\<lambda>e. nodeName e = tag) (descendants n)"

section \<open>Field extraction (second half of fetchNew)\<close>

datatype error = TransportError | TypeError | StoreError | TransactionError

record star =
  name :: string
  img :: string

record JAVinfo =
  title :: string
  cover :: string
  studio :: string
  series :: string
  tags :: "string list"
  stars :: "star list"
  releaseDate :: string

definition emptyInfo :: JAVinfo where
  "emptyInfo =
     \<lparr>title = [], cover = [], studio = [], series = [], tags = [], stars = [], releaseDate = []\<rparr>"

text \<open>The body of the loop over the attributes of one link of the info block.\<close>

definition linkAttr :: "node \<Rightarrow> attribute \<Rightarrow> JAVinfo \<Rightarrow> JAVinfo" where
  "linkAttr item attr data =
     (if attr_name attr = ''href'' then
        (let v = attr_value attr in
         if studio data = [] \<and> contains v ''/ja/studio/'' then data\<lparr>studio := textContent item\<rparr>
         else if series data = [] \<and> contains v ''/ja/series/'' then data\<lparr>series := textContent item\<rparr>
         else if contains v ''/ja/genre/'' then data\<lparr>tags := tags data @ [textContent item]\<rparr>
         else data)
      else data)"

definition fetchNew_links :: "node list \<Rightarrow> JAVinfo \<Rightarrow> JAVinfo" where
  "fetchNew_links a data = fold (\<lambda>item. fold (linkAttr item) (attributes item)) a data"

text \<open>
  The body of the loop over the images of the media block. The source reads the
  attributes by position: \<open>attrs[0]\<close> is tested (and guarded), \<open>attrs[1].value\<close> is read
  without a guard, so an image with a single attribute raises a TypeError.
\<close>

definition isStarImg :: "node \<Rightarrow> bool" where
  "isStarImg item =
     (case attributes item of
        [] \<Rightarrow> False
      | a0 # _ \<Rightarrow> contains (attr_value a0) ''/actress/'' \<or> contains (attr_value a0) ''nowprinting'')"

definition isCoverImg :: "node \<Rightarrow> bool" where
  "isCoverImg item =
     (\<not> isStarImg item \<and>
      (case attributes item of
         [] \<Rightarrow> False
       | a0 # _ \<Rightarrow> contains (attr_value a0) ''/cover/'' \<or> contains (attr_value a0) ''digital/video''))"

definition imgStep :: "node \<Rightarrow> JAVinfo \<Rightarrow> error + JAVinfo" where
  "imgStep item data =
     (if isStarImg item then
        (case attributes item of
           a0 # a1 # _ \<Rightarrow>
             Inr (data\<lparr>stars := stars data @ [\<lparr>name = trim (attr_value a1), img = trim (attr_value a0)\<rparr>]\<rparr>)
         | _ \<Rightarrow> Inl TypeError)
      else if isCoverImg item then
        (case attributes item of
           a0 # a1 # _ \<Rightarrow> Inr (data\<lparr>title := attr_value a1, cover := attr_value a0\<rparr>)
         | _ \<Rightarrow> Inl TypeError)
      else Inr data)"

fun fetchNew_imgs :: "node list \<Rightarrow> JAVinfo \<Rightarrow> error + JAVinfo" where
  "fetchNew_imgs [] data = Inr data"
| "fetchNew_imgs (item # imgs) data =
     (case imgStep item data of
        Inl e \<Rightarrow> Inl e
      | Inr data' \<Rightarrow> fetchNew_imgs imgs data')"

text \<open>The release-date marker of the source, as UTF-8 bytes followed by a colon.\<close>

definition releaseDateMarker :: string where
  "releaseDateMarker =
     [CHR 0xE7, CHR 0x99, CHR 0xBA, CHR 0xE5, CHR 0xA3, CHR 0xB2, CHR 0xE6, CHR 0x97, CHR 0xA5, CHR 0x3A]"

definition dateStep :: "node \<Rightarrow> JAVinfo \<Rightarrow> JAVinfo" where
  "dateStep item data =
     (if releaseDate data \<noteq> [] then data
      else
        (case childNodes item of
           [] \<Rightarrow> data
         | c # cs \<Rightarrow>
             if contains (textContent c) releaseDateMarker
             then data\<lparr>releaseDate := trim (textContent (last (c # cs)))\<rparr>
             else data))"

definition fetchNew_dates :: "node list \<Rightarrow> JAVinfo \<Rightarrow> JAVinfo" where
  "fetchNew_dates p data = fold dateStep p data"

text \<open>
  \<open>extractFields doc\<close> is the part of \<open>fetchNew\<close> after \<open>parser.parseFromString\<close>: \<open>Inr None\<close>
  is the bare \<open>return\<close> (no info block), \<open>Inl TypeError\<close> is the exception raised by a
  property read on \<open>undefined\<close>.
\<close>

definition extractFields :: "node \<Rightarrow> error + JAVinfo option" where
  "extractFields doc =
     (case getElementsByClassName ''info'' doc of
        [] \<Rightarrow> Inr None
      | info # _ \<Rightarrow>
          (let data = fetchNew_links (getElementsByTagName ''a'' info) emptyInfo in
           case getElementsByClassName ''movie'' doc of
             [] \<Rightarrow> Inl TypeError
           | movie # _ \<Rightarrow>
               (case fetchNew_imgs (getElementsByTagName ''img'' movie) data of
                  Inl e \<Rightarrow> Inl e
                | Inr data' \<Rightarrow> Inr (Some (fetchNew_dates (getElementsByTagName ''p'' info) data')))))"

section \<open>Fetching with retries (first half of fetchNew)\<close>

text \<open>
  The collaborators of the module that are not part of the source are parameters of the
  model: the network (\<open>fetch url n\<close> is the body text the \<open>n\<close>-th attempt receives, or
  \<open>None\<close> when that attempt fails), the markup parser, the proxy prefix of the file
  module and the clock reading used for \<open>updateTime\<close>.
\<close>

record env =
  fetch :: "string \<Rightarrow> nat \<Rightarrow> string option"
  parseFromString :: "string \<Rightarrow> node"
  getProxyPrefix :: string
  getTime :: nat

text \<open>
  Modelled from the spec: the retry helper (the \<open>p-retry\<close> package) is not part of the
  source. \<open>pRetry attempt n k\<close> runs attempt number \<open>n\<close> with \<open>k\<close> retries left; a failed
  attempt is retried while retries are left, and the failure of the last attempt is
  raised. With \<open>retries: 5\<close> there are at most six attempts.
\<close>

fun pRetry :: "(nat \<Rightarrow> 'a option) \<Rightarrow> nat \<Rightarrow> nat \<Rightarrow> error + 'a" where
  "pRetry attempt n 0 = (case attempt n of Some r \<Rightarrow> Inr r | None \<Rightarrow> Inl TransportError)"
| "pRetry attempt n (Suc k) = (case attempt n of Some r \<Rightarrow> Inr r | None \<Rightarrow> pRetry attempt (Suc n) k)"

definition requestURL :: "string \<Rightarrow> string" where
  "requestURL JAVID = ''https://www.javbus.com/ja/'' @ JAVID"

section \<open>The store, promises and transactions\<close>

text \<open>
  A promise is resolved with a value, rejected with an error, or never settled.
\<close>

datatype 'a promise = Resolved 'a | Rejected error | Pending

datatype table = Tags | Stars | Series

text \<open>
  Rows of the tables \<open>metadatas\<close>, of \<open>tags\<close>/\<open>stars\<close>/\<open>series\<close> and of
  \<open>tags_mapping\<close>/\<open>stars_mapping\<close>/\<open>series_mapping\<close>. The column \<open>metaId\<close> stands for
  \<open>tagId\<close>, \<open>starId\<close> or \<open>seriesId\<close>. The last field of each row records the transaction
  the row was written in (\<open>None\<close>: written outside any transaction).
\<close>

record metadata_row =
  m_id :: nat
  m_title :: string
  companyName :: string
  companyId :: string
  posterFileURL :: string
  m_releaseDate :: string
  m_updateTime :: nat
  m_trx :: "nat option"

record meta_row =
  e_id :: nat
  e_name :: string
  photoURL :: "string option"
  e_updateTime :: nat
  e_trx :: "nat option"

record mapping_row =
  j_id :: nat
  metadataId :: nat
  metaId :: nat
  j_updateTime :: nat
  j_trx :: "nat option"

text \<open>
  Modelled from the spec: the persistent store (module \<open>./database\<close>), the memoizing
  cache (module \<open>./cache\<close>) and the ignore register (module \<open>./ignore\<close>) are not part of
  the source. The store holds its tables as lists of rows in insertion order. \<open>ops\<close>
  counts the queries issued so far and \<open>faults\<close> lists the numbers of the queries that
  the store fails (a \<open>StoreError\<close>); \<open>open_trx\<close> are the transactions begun and neither
  committed nor rolled back. Every select and count of the module is issued on the plain
  connection (none is bound to a transaction): it sees the committed rows only, not the
  rows written in a transaction that is still open.
\<close>

record state =
  metadatas :: "metadata_row list"
  metas :: "table \<Rightarrow> meta_row list"
  mappings :: "table \<Rightarrow> mapping_row list"
  ignores :: "string list"
  cache :: "((table \<times> nat) \<times> meta_row) list"
  next_trx :: nat
  open_trx :: "nat list"
  ops :: nat
  faults :: "nat list"

type_synonym 'a io = "state \<Rightarrow> 'a promise \<times> state"

definition resolve :: "'a \<Rightarrow> 'a io" where
  "resolve x s = (Resolved x, s)"

definition throw :: "error \<Rightarrow> 'a io" where
  "throw e s = (Rejected e, s)"

definition await :: "'a io \<Rightarrow> ('a \<Rightarrow> 'b io) \<Rightarrow> 'b io" where
  "await m f s =
     (case m s of
        (Resolved x, s') \<Rightarrow> f x s'
      | (Rejected e, s') \<Rightarrow> (Rejected e, s')
      | (Pending, s') \<Rightarrow> (Pending, s'))"

text \<open>
  \<open>new Promise(async (resolve) => { ... })\<close>: the executor is given no \<open>reject\<close>, so the
  promise is resolved with the value the body passes to \<open>resolve\<close>, and is never settled
  when the body raises (an exception inside the async executor is lost) or waits forever.
\<close>

definition newPromise :: "'a io \<Rightarrow> 'a io" where
  "newPromise body s =
     (case body s of
        (Resolved x, s') \<Rightarrow> (Resolved x, s')
      | (Rejected e, s') \<Rightarrow> (Pending, s')
      | (Pending, s') \<Rightarrow> (Pending, s'))"

text \<open>
  \<open>Promise.all\<close> over promises that were all started: every one of them runs; the
  result is rejected when one is rejected, never settled when one is never settled, and
  the list of values otherwise. The source starts all the promises before any of them
  resumes, and the order in which the store serves their queries is not fixed by the
  source; the model fixes one order: it runs the promises to completion one after the
  other, in the order they were started. The interleaving of two calls is modelled apart,
  by \<open>concurrently\<close> below.
\<close>

fun joinPromise :: "'a promise \<Rightarrow> 'a list promise \<Rightarrow> 'a list promise" where
  "joinPromise (Rejected e) rs = Rejected e"
| "joinPromise (Resolved x) (Resolved xs) = Resolved (x # xs)"
| "joinPromise (Resolved x) (Rejected e) = Rejected e"
| "joinPromise (Resolved x) Pending = Pending"
| "joinPromise Pending (Rejected e) = Rejected e"
| "joinPromise Pending rs = Pending"

fun promiseAll :: "'a io list \<Rightarrow> 'a list io" where
  "promiseAll [] s = (Resolved [], s)"
| "promiseAll (p # ps) s =
     (case p s of (r, s') \<Rightarrow>
        (case promiseAll ps s' of (rs, s'') \<Rightarrow> (joinPromise r rs, s'')))"

definition query :: "(state \<Rightarrow> 'a \<times> state) \<Rightarrow> 'a io" where
  "query q s =
     (let s' = s\<lparr>ops := Suc (ops s)\<rparr> in
      if ops s \<in> set (faults s) then (Rejected StoreError, s')
      else (case q s' of (x, s'') \<Rightarrow> (Resolved x, s'')))"

definition nextId :: "nat list \<Rightarrow> nat" where
  "nextId ids = Suc (fold max ids 0)"

definition commit :: "nat \<Rightarrow> state \<Rightarrow> state" where
  "commit t s = s\<lparr>open_trx := removeAll t (open_trx s)\<rparr>"

definition rollback :: "nat \<Rightarrow> state \<Rightarrow> state" where
  "rollback t s =
     s\<lparr>metadatas := filter (\<lambda>r. m_trx r \<noteq> Some t) (metadatas s),
       metas := (\<lambda>k. filter (\<lambda>r. e_trx r \<noteq> Some t) (metas s k)),
       mappings := (\<lambda>k. filter (\<lambda>r. j_trx r \<noteq> Some t) (mappings s k)),
       open_trx := removeAll t (open_trx s)\<rparr>"

text \<open>
  Modelled from the spec: the transaction primitive of the store.
  \<open>db.transaction(async trx => { ... })\<close> begins a new transaction and hands it to the
  handler; the transaction is committed when the handler returns, rolled back when the
  handler raises, and stays open while the handler never returns. A rollback removes the
  rows written in the transaction.
\<close>

definition transaction :: "(nat \<Rightarrow> 'a io) \<Rightarrow> 'a io" where
  "transaction handler s =
     (let t = next_trx s;
          s1 = s\<lparr>next_trx := Suc t, open_trx := t # open_trx s\<rparr>
      in case handler t s1 of
           (Resolved x, s2) \<Rightarrow> (Resolved x, commit t s2)
         | (Rejected e, s2) \<Rightarrow> (Rejected e, rollback t s2)
         | (Pending, s2) \<Rightarrow> (Pending, s2))"

text \<open>
  A row is committed once its transaction is no longer open; the plain connection sees
  the committed rows of a table.
\<close>

definition committed :: "state \<Rightarrow> nat option \<Rightarrow> bool" where
  "committed s t = (case t of None \<Rightarrow> True | Some n \<Rightarrow> n \<notin> set (open_trx s))"

definition visible :: "state \<Rightarrow> ('r \<Rightarrow> nat option) \<Rightarrow> 'r list \<Rightarrow> 'r list" where
  "visible s trx_of rows = filter (\<lambda>r. committed s (trx_of r)) rows"

text \<open>
  Modelled from the spec: \<open>insert(...).transacting(trx)\<close>. The store refuses an undefined
  or null \<open>trx\<close> and a transaction that is no longer open; the insert is not issued then.
\<close>

definition transacting :: "nat option \<Rightarrow> 'a io \<Rightarrow> 'a io" where
  "transacting trx q s =
     (case trx of
        None \<Rightarrow> (Rejected TransactionError, s)
      | Some t \<Rightarrow> if t \<in> set (open_trx s) then q s else (Rejected TransactionError, s))"

subsection \<open>The queries the module issues\<close>

definition metadatas_where_key :: "string \<Rightarrow> string \<Rightarrow> metadata_row option io" where
  "metadatas_where_key cn ci =
     query (\<lambda>s. (find (\<lambda>r. companyName r = cn \<and> companyId r = ci)
                     (visible s m_trx (metadatas s)), s))"

definition metadatas_where_id :: "nat \<Rightarrow> metadata_row option io" where
  "metadatas_where_id i =
     query (\<lambda>s. (find (\<lambda>r. m_id r = i) (visible s m_trx (metadatas s)), s))"

definition metadatas_insert ::
  "string \<Rightarrow> string \<Rightarrow> string \<Rightarrow> string \<Rightarrow> string \<Rightarrow> nat \<Rightarrow> nat option \<Rightarrow> nat io" where
  "metadatas_insert t cn ci poster rd ut trx =
     transacting trx (query (\<lambda>s.
       (let i = nextId (map m_id (metadatas s)) in
        (i, s\<lparr>metadatas := metadatas s @
                 [\<lparr>m_id = i, m_title = t, companyName = cn, companyId = ci, posterFileURL = poster,
                   m_releaseDate = rd, m_updateTime = ut, m_trx = trx\<rparr>]\<rparr>))))"

definition metas_where_name :: "table \<Rightarrow> string \<Rightarrow> meta_row option io" where
  "metas_where_name type n =
     query (\<lambda>s. (find (\<lambda>r. e_name r = n) (visible s e_trx (metas s type)), s))"

definition metas_where_id :: "table \<Rightarrow> nat \<Rightarrow> meta_row option io" where
  "metas_where_id type i =
     query (\<lambda>s. (find (\<lambda>r. e_id r = i) (visible s e_trx (metas s type)), s))"

definition metas_insert :: "table \<Rightarrow> string \<Rightarrow> string option \<Rightarrow> nat \<Rightarrow> nat option \<Rightarrow> nat io" where
  "metas_insert type n photo ut trx =
     transacting trx (query (\<lambda>s.
       (let i = nextId (map e_id (metas s type)) in
        (i, s\<lparr>metas := (metas s)(type := metas s type @
                 [\<lparr>e_id = i, e_name = n, photoURL = photo, e_updateTime = ut, e_trx = trx\<rparr>])\<rparr>))))"

definition mappings_count :: "table \<Rightarrow> nat \<Rightarrow> nat \<Rightarrow> nat io" where
  "mappings_count type i mid =
     query (\<lambda>s. (length (filter (\<lambda>r. metaId r = i \<and> metadataId r = mid)
                             (visible s j_trx (mappings s type))), s))"

definition mappings_insert :: "table \<Rightarrow> nat \<Rightarrow> nat \<Rightarrow> nat \<Rightarrow> nat option \<Rightarrow> nat io" where
  "mappings_insert type mid i ut trx =
     transacting trx (query (\<lambda>s.
       (let j = nextId (map j_id (mappings s type)) in
        (j, s\<lparr>mappings := (mappings s)(type := mappings s type @
                 [\<lparr>j_id = j, metadataId = mid, metaId = i, j_updateTime = ut, j_trx = trx\<rparr>])\<rparr>))))"

definition mappings_where_metadataId :: "table \<Rightarrow> nat \<Rightarrow> mapping_row list io" where
  "mappings_where_metadataId type mid =
     query (\<lambda>s. (filter (\<lambda>r. metadataId r = mid) (visible s j_trx (mappings s type)), s))"

definition addIgnore :: "string \<Rightarrow> unit io" where
  "addIgnore JAVID = query (\<lambda>s. ((), s\<lparr>ignores := ignores s @ [JAVID]\<rparr>))"

section \<open>The module\<close>

subsection \<open>fetchNew\<close>

definition fetchNew :: "env \<Rightarrow> string \<Rightarrow> JAVinfo option io" where
  "fetchNew env JAVID s =
     (case pRetry (fetch env (requestURL JAVID)) 1 5 of
        Inl e \<Rightarrow> (Rejected e, s)
      | Inr result \<Rightarrow>
          (case extractFields (parseFromString env result) of
             Inl e \<Rightarrow> (Rejected e, s)
           | Inr data \<Rightarrow> (Resolved data, s)))"

subsection \<open>getMetaId\<close>

text \<open>
  \<open>getMetaId\<close> is a lookup by name (issued on the plain connection) followed, when no
  row is found, by an insert (issued in the caller's transaction). The part after the
  lookup is \<open>getMetaId_continue\<close>. A \<open>photoURL\<close> is tested for truthiness: \<open>null\<close> and the
  empty string are not stored.
\<close>

definition getMetaId_continue ::
  "env \<Rightarrow> table \<Rightarrow> string \<Rightarrow> string option \<Rightarrow> nat option \<Rightarrow> meta_row option \<Rightarrow> nat io" where
  "getMetaId_continue env type n photo trx result =
     (case result of
        Some r \<Rightarrow> resolve (e_id r)
      | None \<Rightarrow>
          metas_insert type n
            (case photo of
               None \<Rightarrow> None
             | Some v \<Rightarrow> if v \<noteq> [] then Some (getProxyPrefix env @ v) else None)
            (getTime env) trx)"

definition getMetaId :: "env \<Rightarrow> table \<Rightarrow> string \<Rightarrow> string option \<Rightarrow> nat option \<Rightarrow> nat io" where
  "getMetaId env type n photo trx =
     await (metas_where_name type n) (getMetaId_continue env type n photo trx)"

subsection \<open>attachMeta\<close>

record typeMapping =
  map_log :: string
  map_column :: string
  map_type :: table

definition getTypeMapping :: "string \<Rightarrow> typeMapping option" where
  "getTypeMapping type =
     (if type = ''tag'' then Some \<lparr>map_log = ''Tag'', map_column = ''tagId'', map_type = Tags\<rparr>
      else if type = ''star'' then Some \<lparr>map_log = ''Star'', map_column = ''starId'', map_type = Stars\<rparr>
      else if type = ''series'' then
        Some \<lparr>map_log = ''Series'', map_column = ''seriesId'', map_type = Series\<rparr>
      else None)"

text \<open>
  For a type outside the switch the mapping object is empty and the first query names a
  table that does not exist: the store fails it. The junction row is inserted in a
  transaction that \<open>attachMeta\<close> begins itself; the parameter \<open>trx\<close> only reaches
  \<open>getMetaId\<close>.
\<close>

definition attachMeta ::
  "env \<Rightarrow> string \<Rightarrow> nat \<Rightarrow> string \<Rightarrow> string option \<Rightarrow> nat option \<Rightarrow> nat io" where
  "attachMeta env type mid n photo trx =
     newPromise
       (case getTypeMapping type of
          None \<Rightarrow> throw StoreError
        | Some m \<Rightarrow>
            await (getMetaId env (map_type m) n photo trx) (\<lambda>i.
            await (mappings_count (map_type m) i mid) (\<lambda>count.
            transaction (\<lambda>trx'.
              if count = 0
              then await (mappings_insert (map_type m) mid i (getTime env) (Some trx')) (\<lambda>_. resolve 1)
              else resolve 1))))"

subsection \<open>getMetadataId\<close>

text \<open>
  The key is split at \<open>-\<close>; a key without \<open>-\<close> leaves \<open>companyId\<close> undefined, and the
  store refuses a query bound to an undefined value.
\<close>

definition attachAll :: "env \<Rightarrow> nat \<Rightarrow> JAVinfo \<Rightarrow> nat option \<Rightarrow> nat io list" where
  "attachAll env mid info trx =
     (if series info \<noteq> [] then [attachMeta env ''series'' mid (series info) None trx] else []) @
     map (\<lambda>item. attachMeta env ''star'' mid (name item) (Some (img item)) trx) (stars info) @
     map (\<lambda>item. attachMeta env ''tag'' mid item None trx) (tags info)"

definition ignoreKey :: "string \<Rightarrow> nat io" where
  "ignoreKey JAVID = await (addIgnore JAVID) (\<lambda>_. resolve 0)"

definition createMetadata :: "env \<Rightarrow> string \<Rightarrow> string \<Rightarrow> string \<Rightarrow> nat \<Rightarrow> nat io" where
  "createMetadata env JAVID cn ci trx =
     await (fetchNew env JAVID) (\<lambda>JAVinfo.
       case JAVinfo of
         None \<Rightarrow> ignoreKey JAVID
       | Some info \<Rightarrow>
           if tags info = [] \<or> stars info = [] then ignoreKey JAVID
           else
             await (metadatas_insert (title info) cn ci (cover info) (releaseDate info)
                      (getTime env) (Some trx)) (\<lambda>mid.
             await (promiseAll (attachAll env mid info (Some trx))) (\<lambda>_. resolve mid)))"

definition getMetadataId :: "env \<Rightarrow> string \<Rightarrow> nat io" where
  "getMetadataId env JAVID =
     newPromise
       (case split CHR ''-'' JAVID of
          cn # ci # _ \<Rightarrow>
            await (metadatas_where_key cn ci) (\<lambda>found.
              case found of
                Some r \<Rightarrow>
                  if m_id r \<noteq> 0 then resolve (m_id r)
                  else transaction (createMetadata env JAVID cn ci)
              | None \<Rightarrow> transaction (createMetadata env JAVID cn ci))
        | _ \<Rightarrow> throw StoreError)"

subsection \<open>Reading a record back\<close>

text \<open>
  Modelled from the spec: \<open>cache(key, producer)\<close> returns the value stored under the key,
  and on a miss runs the producer and stores what it found (a missing row is not
  remembered). The key \<open>getMeta_<type>_<id>\<close> is the pair of the table and the id.
\<close>

definition cached :: "table \<times> nat \<Rightarrow> meta_row option io \<Rightarrow> meta_row option io" where
  "cached key producer s =
     (case map_of (cache s) key of
        Some v \<Rightarrow> (Resolved (Some v), s)
      | None \<Rightarrow>
          (case producer s of
             (Resolved (Some v), s') \<Rightarrow> (Resolved (Some v), s'\<lparr>cache := (key, v) # cache s'\<rparr>)
           | (r, s') \<Rightarrow> (r, s')))"

definition getMetaInfoByMetaId :: "env \<Rightarrow> table \<Rightarrow> nat \<Rightarrow> meta_row option io" where
  "getMetaInfoByMetaId env type i =
     await (cached (type, i) (metas_where_id type i)) (\<lambda>result.
       case result of
         None \<Rightarrow> resolve None
       | Some r \<Rightarrow>
           resolve (Some (case photoURL r of
                            None \<Rightarrow> r
                          | Some v \<Rightarrow> if v \<noteq> [] then r\<lparr>photoURL := Some (getProxyPrefix env @ v)\<rparr> else r)))"

fun getMetaInfos :: "env \<Rightarrow> table \<Rightarrow> nat list \<Rightarrow> meta_row option list io" where
  "getMetaInfos env type [] s = (Resolved [], s)"
| "getMetaInfos env type (i # is) s =
     await (getMetaInfoByMetaId env type i) (\<lambda>x.
     await (getMetaInfos env type is) (\<lambda>xs. resolve (x # xs))) s"

record metaList =
  metas_tags :: "meta_row option list"
  metas_stars :: "meta_row option list"
  metas_series :: "meta_row option"

text \<open>
  Tags and stars are looked up by the \<open>tagId\<close>/\<open>starId\<close> column of their junction rows;
  the series is looked up by \<open>result.id\<close>, the id of the junction row itself.
\<close>

definition getMetaByMetadataId :: "env \<Rightarrow> nat \<Rightarrow> metaList io" where
  "getMetaByMetadataId env i =
     await (mappings_where_metadataId Tags i) (\<lambda>result.
     await (getMetaInfos env Tags (map metaId result)) (\<lambda>ts.
     await (mappings_where_metadataId Stars i) (\<lambda>result.
     await (getMetaInfos env Stars (map metaId result)) (\<lambda>ss.
     await (mappings_where_metadataId Series i) (\<lambda>result.
       case result of
         [] \<Rightarrow> resolve \<lparr>metas_tags = ts, metas_stars = ss, metas_series = None\<rparr>
       | r # _ \<Rightarrow>
           await (getMetaInfoByMetaId env Series (j_id r)) (\<lambda>se.
             resolve \<lparr>metas_tags = ts, metas_stars = ss, metas_series = se\<rparr>))))))"

record metadata =
  base :: metadata_row
  JAVID :: string
  metaList :: metaList

definition getMetadataById :: "env \<Rightarrow> nat \<Rightarrow> metadata option io" where
  "getMetadataById env i =
     await (metadatas_where_id i) (\<lambda>result.
       case result of
         None \<Rightarrow> resolve None
       | Some r \<Rightarrow>
           await (getMetaByMetadataId env i) (\<lambda>ms.
             resolve (Some \<lparr>base = r\<lparr>posterFileURL := getProxyPrefix env @ posterFileURL r\<rparr>,
                            JAVID = companyName r @ ''-'' @ companyId r,
                            metaList = ms\<rparr>)))"

subsection \<open>Two calls of getMetaId running concurrently\<close>

text \<open>
  A call of \<open>getMetaId\<close> gives up control at each \<open>await\<close>: once while the lookup runs and
  once while the insert runs. Between the two, another call may take a step.
  \<open>concurrently f g sch\<close> runs two calls, the schedule \<open>sch\<close> saying which call takes the
  next step (\<open>True\<close>: the first).
\<close>

datatype getMetaId_task = Lookup | Continue "meta_row option" | Returned "nat promise"

definition getMetaId_step ::
  "env \<Rightarrow> table \<Rightarrow> string \<Rightarrow> string option \<Rightarrow> nat option \<Rightarrow> getMetaId_task \<Rightarrow> state
     \<Rightarrow> getMetaId_task \<times> state" where
  "getMetaId_step env type n photo trx task s =
     (case task of
        Lookup \<Rightarrow>
          (case metas_where_name type n s of
             (Resolved r, s') \<Rightarrow> (Continue r, s')
           | (Rejected e, s') \<Rightarrow> (Returned (Rejected e), s')
           | (Pending, s') \<Rightarrow> (Returned Pending, s'))
      | Continue r \<Rightarrow>
          (case getMetaId_continue env type n photo trx r s of (p, s') \<Rightarrow> (Returned p, s'))
      | Returned p \<Rightarrow> (Returned p, s))"

fun concurrently ::
  "('t \<Rightarrow> state \<Rightarrow> 't \<times> state) \<Rightarrow> ('t \<Rightarrow> state \<Rightarrow> 't \<times> state) \<Rightarrow> bool list
     \<Rightarrow> 't \<times> 't \<times> state \<Rightarrow> 't \<times> 't \<times> state" where
  "concurrently f g [] c = c"
| "concurrently f g (b # sch) (x, y, s) =
     (if b then (case f x s of (x', s') \<Rightarrow> concurrently f g sch (x', y, s'))
      else (case g y s of (y', s') \<Rightarrow> concurrently f g sch (x, y', s')))"

section \<open>Example inputs\<close>

text \<open>A page with an info block and no media block.\<close>

definition pageWithoutMovie :: node where
  "pageWithoutMovie =
     Element ''html'' []
       [Element ''div'' [Attr ''class'' ''info'']
          [Element ''a'' [Attr ''href'' ''/ja/genre/g1''] [Text ''Drama'']]]"

text \<open>A page whose media block holds two cover images and whose info block is empty.\<close>

definition pageTwoCovers :: node where
  "pageTwoCovers =
     Element ''html'' []
       [Element ''div'' [Attr ''class'' ''container movie'']
          [Element ''img'' [Attr ''src'' ''/cover/a.jpg'', Attr ''title'' ''A''] [],
           Element ''img'' [Attr ''src'' ''/cover/b.jpg'', Attr ''title'' ''B''] [],
           Element ''div'' [Attr ''class'' ''info''] []]]"

text \<open>A page with a cover, a release date, the series S1, the tag Drama and the star Jane.\<close>

definition samplePage :: node where
  "samplePage =
     Element ''html'' []
       [Element ''div'' [Attr ''class'' ''container movie'']
          [Element ''a'' [Attr ''class'' ''bigImage'', Attr ''href'' ''/pics/cover/x_b.jpg'']
             [Element ''img'' [Attr ''src'' ''/pics/cover/x_b.jpg'', Attr ''title'' ''T''] []],
           Element ''div'' [Attr ''class'' ''info'']
             [Element ''p'' [] [Element ''span'' [] [Text releaseDateMarker], Text '' 2020-01-01''],
              Element ''p'' [] [Element ''a'' [Attr ''href'' ''/ja/series/s1''] [Text ''S1'']],
              Element ''p'' [] [Element ''a'' [Attr ''href'' ''/ja/genre/g1''] [Text ''Drama'']],
              Element ''a'' [Attr ''href'' ''/ja/star/j'']
                [Element ''img'' [Attr ''src'' ''/pics/actress/j.jpg'', Attr ''title'' ''Jane''] []]]]]"

definition sampleInfo :: JAVinfo where
  "sampleInfo =
     \<lparr>title = ''T'', cover = ''/pics/cover/x_b.jpg'', studio = [], series = ''S1'',
      tags = [''Drama''], stars = [\<lparr>name = ''Jane'', img = ''/pics/actress/j.jpg''\<rparr>],
      releaseDate = ''2020-01-01''\<rparr>"

text \<open>
  Three environments: every request answers with the sample page; every request answers
  with the page of two covers (no tag, no star); every attempt fails.
\<close>

definition env0 :: env where
  "env0 = \<lparr>fetch = (\<lambda>url n. Some url), parseFromString = (\<lambda>text. samplePage),
            getProxyPrefix = ''/proxy'', getTime = 0\<rparr>"

definition envNoTags :: env where
  "envNoTags = \<lparr>fetch = (\<lambda>url n. Some url), parseFromString = (\<lambda>text. pageTwoCovers),
                 getProxyPrefix = ''/proxy'', getTime = 0\<rparr>"

definition envDown :: env where
  "envDown = \<lparr>fetch = (\<lambda>url n. None), parseFromString = (\<lambda>text. samplePage),
               getProxyPrefix = ''/proxy'', getTime = 0\<rparr>"

definition emptyState :: state where
  "emptyState =
     \<lparr>metadatas = [], metas = (\<lambda>t. []), mappings = (\<lambda>t. []), ignores = [], cache = [],
      next_trx = 1, open_trx = [], ops = 0, faults = []\<rparr>"

text \<open>The stores reached in the examples below.\<close>

definition afterOne :: state where
  "afterOne = snd (getMetadataId env0 ''ABC-001'' emptyState)"

definition afterTwo :: state where
  "afterTwo = snd (getMetadataId env0 ''ABC-002'' afterOne)"

definition afterFailedAttach :: state where
  "afterFailedAttach = snd (getMetadataId env0 ''ABC-001'' (emptyState\<lparr>faults := [6]\<rparr>))"

text \<open>
  The store in the middle of the creation of record 1: transaction 1 has been begun and
  holds the base row; no tag, star or series exists yet. Calls made from here pass the
  open transaction 1, as the calls of \<open>getMetadataId\<close> do.
\<close>

definition creating :: state where
  "creating =
     \<lparr>metadatas =
        [\<lparr>m_id = 1, m_title = ''T'', companyName = ''ABC'', companyId = ''001'',
          posterFileURL = ''/pics/cover/x_b.jpg'', m_releaseDate = ''2020-01-01'',
          m_updateTime = 0, m_trx = Some 1\<rparr>],
      metas = (\<lambda>t. []), mappings = (\<lambda>t. []), ignores = [], cache = [],
      next_trx = 2, open_trx = [1], ops = 2, faults = []\<rparr>"

definition resolvedOnce :: state where
  "resolvedOnce = snd (getMetaId env0 Tags ''Drama'' None (Some 1) creating)"

definition resolvedTwice :: state where
  "resolvedTwice = snd (getMetaId env0 Tags ''Drama'' None (Some 1) resolvedOnce)"

definition attachedOnce :: state where
  "attachedOnce = snd (attachMeta env0 ''tag'' 1 ''Drama'' None (Some 1) creating)"

definition attachedTwice :: state where
  "attachedTwice = snd (attachMeta env0 ''tag'' 1 ''Drama'' None (Some 1) attachedOnce)"

definition raceResult :: "getMetaId_task \<times> getMetaId_task \<times> state" where
  "raceResult =
     concurrently (getMetaId_step env0 Tags ''Drama'' None (Some 1))
       (getMetaId_step env0 Tags ''Drama'' None (Some 1))
       [True, False, True, False] (Lookup, Lookup, creating)"

text \<open>
  The store after the creation of the first record, once the creation of a second record
  has begun transaction 5: the tag Drama is committed.
\<close>

definition secondBegun :: state where
  "secondBegun = afterOne\<lparr>next_trx := 6, open_trx := [5]\<rparr>"

section \<open>Rows and stores used to state the properties\<close>

text \<open>
  The row \<open>getMetaId\<close> inserts for a new name, the junction row \<open>attachMeta\<close> inserts, and
  the store \<open>attachMeta\<close> leaves behind once \<open>getMetaId\<close> has returned the id \<open>i\<close>: the
  count query, the begin and the commit of a transaction and, when the pair has no
  committed junction row yet, the insert.
\<close>

definition newMeta ::
  "env \<Rightarrow> meta_row list \<Rightarrow> string \<Rightarrow> string option \<Rightarrow> nat option \<Rightarrow> meta_row" where
  "newMeta env rows n photo trx =
     \<lparr>e_id = nextId (map e_id rows), e_name = n,
      photoURL =
        (case photo of
           None \<Rightarrow> None
         | Some v \<Rightarrow> if v \<noteq> [] then Some (getProxyPrefix env @ v) else None),
      e_updateTime = getTime env, e_trx = trx\<rparr>"

definition newMapping :: "env \<Rightarrow> mapping_row list \<Rightarrow> nat \<Rightarrow> nat \<Rightarrow> nat \<Rightarrow> mapping_row" where
  "newMapping env rows mid i t =
     \<lparr>j_id = nextId (map j_id rows), metadataId = mid, metaId = i,
      j_updateTime = getTime env, j_trx = Some t\<rparr>"

definition linked :: "env \<Rightarrow> table \<Rightarrow> nat \<Rightarrow> nat \<Rightarrow> state \<Rightarrow> state" where
  "linked env type mid i s =
     (if filter (\<lambda>r. metaId r = i \<and> metadataId r = mid) (visible s j_trx (mappings s type)) = []
      then s\<lparr>ops := Suc (Suc (ops s)), next_trx := Suc (next_trx s),
             open_trx := removeAll (next_trx s) (next_trx s # open_trx s),
             mappings := (mappings s)(type := mappings s type @
               [newMapping env (mappings s type) mid i (next_trx s)])\<rparr>
      else s\<lparr>ops := Suc (ops s), next_trx := Suc (next_trx s),
             open_trx := removeAll (next_trx s) (next_trx s # open_trx s)\<rparr>)"

text \<open>
  In a well-formed store every transaction number in use is below the number the next
  transaction will get.
\<close>

definition trxBelow :: "nat \<Rightarrow> nat option \<Rightarrow> bool" where
  "trxBelow n t = (case t of None \<Rightarrow> True | Some k \<Rightarrow> k < n)"

definition wellformed :: "state \<Rightarrow> bool" where
  "wellformed s =
     (list_all (\<lambda>r. trxBelow (next_trx s) (m_trx r)) (metadatas s) \<and>
      (\<forall>k. list_all (\<lambda>r. trxBelow (next_trx s) (e_trx r)) (metas s k)) \<and>
      (\<forall>k. list_all (\<lambda>r. trxBelow (next_trx s) (j_trx r)) (mappings s k)) \<and>
      list_all (\<lambda>t. t < next_trx s) (open_trx s))"

section \<open>Properties of the field extraction\<close>

lemma extractFields_samplePage: "extractFields samplePage = Inr (Some sampleInfo)"
  by code_simp

lemma extractFields_pageTwoCovers:
  "extractFields pageTwoCovers =
     Inr (Some \<lparr>title = ''B'', cover = ''/cover/b.jpg'', studio = [], series = [], tags = [],
                stars = [], releaseDate = []\<rparr>)"
  by code_simp

text \<open>
  C4. The claim: for every parseable document the extraction never throws, and a missing
  info block, media block or date paragraph leaves the fields empty. The info block is
  guarded in the source, the media block is not: on a page that has an info block and no
  element of class \<open>movie\<close>, \<open>getElementsByClassName('movie')[0]\<close> is undefined and the
  extraction raises a TypeError.
\<close>

theorem extractFields_missing_movie_throws: "extractFields pageWithoutMovie = Inl TypeError"
  by code_simp

lemma imgStep_cover:
  "imgStep item data = Inr d \<Longrightarrow> isCoverImg item \<Longrightarrow>
     2 \<le> length (attributes item) \<and> title d = attr_value (attributes item ! 1) \<and>
     cover d = attr_value (attributes item ! 0)"
  by (auto simp: imgStep_def isCoverImg_def split: list.splits)

lemma imgStep_other:
  "imgStep item data = Inr d \<Longrightarrow> \<not> isCoverImg item \<Longrightarrow>
     title d = title data \<and> cover d = cover data"
  by (auto simp: imgStep_def split: list.splits if_splits)

lemma fetchNew_imgs_cover:
  "fetchNew_imgs imgs data = Inr d \<Longrightarrow>
     (if filter isCoverImg imgs = [] then title d = title data \<and> cover d = cover data
      else 2 \<le> length (attributes (last (filter isCoverImg imgs))) \<and>
           title d = attr_value (attributes (last (filter isCoverImg imgs)) ! 1) \<and>
           cover d = attr_value (attributes (last (filter isCoverImg imgs)) ! 0))"
proof (induction imgs arbitrary: data)
  case Nil
  then show ?case by simp
next
  case (Cons item imgs)
  from Cons.prems obtain d1
    where step: "imgStep item data = Inr d1" and rest: "fetchNew_imgs imgs d1 = Inr d"
    by (auto split: sum.splits)
  note ih = Cons.IH [OF rest]
  show ?case
  proof (cases "isCoverImg item")
    case True
    with imgStep_cover [OF step] ih show ?thesis by (auto split: if_splits)
  next
    case False
    with imgStep_other [OF step] ih show ?thesis by (auto split: if_splits)
  qed
qed

lemma dateStep_keeps:
  "title (dateStep item data) = title data \<and> cover (dateStep item data) = cover data"
  by (simp add: dateStep_def split: list.splits)

lemma fetchNew_dates_keeps:
  "title (fetchNew_dates p data) = title data \<and> cover (fetchNew_dates p data) = cover data"
  unfolding fetchNew_dates_def
  by (induction p arbitrary: data) (simp_all add: dateStep_keeps)

text \<open>
  C5. The claim: when the media block holds several images that match the cover marker,
  title and cover come from the first of them. The single-valued fields studio, series
  and release date are guarded so that the first match wins; the cover branch has no such
  guard and assigns title and cover at every matching image: on the page of two covers
  the result carries the title and the path of the second image.
\<close>

theorem extractFields_two_covers_last_wins:
  "extractFields pageTwoCovers =
     Inr (Some \<lparr>title = ''B'', cover = ''/cover/b.jpg'', studio = [], series = [], tags = [],
                stars = [], releaseDate = []\<rparr>)"
  by (rule extractFields_pageTwoCovers)

text \<open>
  On every page: when the extraction succeeds and the media block (the first element of
  class \<open>movie\<close>) holds at least one image that reaches the cover branch, title is the
  value of the second attribute and cover the value of the first attribute of the last
  such image in document order.
\<close>

lemma extractFields_last_cover:
  assumes "extractFields doc = Inr (Some d)"
    and "getElementsByClassName ''movie'' doc = movie # others"
    and "filter isCoverImg (getElementsByTagName ''img'' movie) = covers"
    and "covers \<noteq> []"
  shows "title d = attr_value (attributes (last covers) ! 1) \<and>
         cover d = attr_value (attributes (last covers) ! 0)"
  using assms fetchNew_imgs_cover fetchNew_dates_keeps
  by (auto simp: extractFields_def Let_def split: list.splits sum.splits if_splits)

section \<open>Properties of the store operations\<close>

lemma query_ok:
  "ops s \<notin> set (faults s) \<Longrightarrow>
     query q s = (case q (s\<lparr>ops := Suc (ops s)\<rparr>) of (x, s') \<Rightarrow> (Resolved x, s'))"
  by (simp add: query_def Let_def)

lemma committed_ops: "committed (s\<lparr>ops := k\<rparr>) = committed s"
  by (simp add: fun_eq_iff committed_def split: option.splits)

lemma visible_ops: "visible (s\<lparr>ops := k\<rparr>) f xs = visible s f xs"
  by (simp add: visible_def committed_ops)

lemma find_filter_None: "find P xs = None \<Longrightarrow> find P (filter Q xs) = None"
  by (simp add: find_None_iff)

lemma find_visible_None: "find P xs = None \<Longrightarrow> find P (visible s f xs) = None"
  by (simp add: visible_def find_filter_None)

lemma find_filter_single: "filter P xs = [r] \<Longrightarrow> Q r \<Longrightarrow> find P (filter Q xs) = Some r"
  by (induction xs) (auto split: if_splits simp: find_filter_None find_None_iff filter_empty_conv)

lemma getMetaId_found:
  assumes "ops s \<notin> set (faults s)"
    and "find (\<lambda>r. e_name r = n) (visible s e_trx (metas s type)) = Some r"
  shows "getMetaId env type n photo trx s = (Resolved (e_id r), s\<lparr>ops := Suc (ops s)\<rparr>)"
  using assms
  by (simp add: getMetaId_def await_def metas_where_name_def query_ok getMetaId_continue_def
      resolve_def visible_ops)

lemma getMetaId_new:
  assumes "ops s \<notin> set (faults s)" and "Suc (ops s) \<notin> set (faults s)"
    and "find (\<lambda>r. e_name r = n) (visible s e_trx (metas s type)) = None"
    and "t \<in> set (open_trx s)"
  shows "getMetaId env type n photo (Some t) s =
     (Resolved (nextId (map e_id (metas s type))),
      s\<lparr>ops := Suc (Suc (ops s)),
        metas := (metas s)(type := metas s type @ [newMeta env (metas s type) n photo (Some t)])\<rparr>)"
  using assms
  by (simp add: getMetaId_def await_def metas_where_name_def query_ok getMetaId_continue_def
      resolve_def metas_insert_def transacting_def Let_def newMeta_def visible_ops)

text \<open>
  C8. For every id with no matching base row, \<open>getMetadataById\<close> returns \<open>null\<close> (here
  \<open>Resolved None\<close>) and not an error, provided the store answers the lookup.
\<close>

theorem getMetadataById_not_found:
  assumes "find (\<lambda>r. m_id r = i) (metadatas s) = None" and "ops s \<notin> set (faults s)"
  shows "fst (getMetadataById env i s) = Resolved None"
  using find_filter_None [OF assms(1)] assms(2)
  by (simp add: getMetadataById_def await_def metadatas_where_id_def query_ok resolve_def
      visible_def)

lemma attachMeta_linked:
  assumes "faults s1 = []" and "getTypeMapping type = Some m"
    and "getMetaId env (map_type m) n photo trx s = (Resolved i, s1)"
  shows "attachMeta env type mid n photo trx s = (Resolved 1, linked env (map_type m) mid i s1)"
  using assms
  by (simp add: attachMeta_def newPromise_def await_def mappings_count_def query_ok
        transaction_def Let_def mappings_insert_def transacting_def commit_def resolve_def
        newMapping_def linked_def visible_ops)

lemma linked_simps:
  "faults (linked env type mid i s) = faults s"
  "metadatas (linked env type mid i s) = metadatas s"
  "ignores (linked env type mid i s) = ignores s"
  "metas (linked env type mid i s) = metas s"
  "cache (linked env type mid i s) = cache s"
  "next_trx (linked env type mid i s) = Suc (next_trx s)"
  "open_trx (linked env type mid i s) = removeAll (next_trx s) (open_trx s)"
  by (simp_all add: linked_def)

lemma getMetaId_resolves:
  assumes "faults s = []" and "t \<in> set (open_trx s)"
  shows "\<exists>i s1. getMetaId env type n photo (Some t) s = (Resolved i, s1) \<and> faults s1 = [] \<and>
           metadatas s1 = metadatas s \<and> ignores s1 = ignores s \<and>
           open_trx s1 = open_trx s \<and> next_trx s1 = next_trx s"
proof (cases "find (\<lambda>r. e_name r = n) (visible s e_trx (metas s type))")
  case None
  with assms show ?thesis by (simp add: getMetaId_new)
next
  case (Some e)
  with assms show ?thesis by (simp add: getMetaId_found)
qed

lemma fetchNew_state: "fetchNew env key s = (fst (fetchNew env key s0), s)"
  by (simp add: fetchNew_def split: sum.splits)

lemma fetchNew_any:
  "fetchNew env key s0 = (r, s0) \<Longrightarrow> fetchNew env key s = (r, s)"
  using fetchNew_state [of env key s s0] by simp

text \<open>
  During a creation the store answers its queries and the transaction of the creation is
  open and older than every transaction begun later.
\<close>

lemma attachMeta_benign:
  assumes "faults s = []" and "t \<in> set (open_trx s)" and "t < next_trx s"
    and "getTypeMapping type = Some m"
  shows "\<exists>s'. attachMeta env type mid n photo (Some t) s = (Resolved 1, s') \<and>
           (faults s' = [] \<and> t \<in> set (open_trx s') \<and> t < next_trx s') \<and>
           metadatas s' = metadatas s \<and> ignores s' = ignores s"
proof -
  from getMetaId_resolves [OF assms(1,2), of env "map_type m" n photo]
  obtain i a
    where g1: "getMetaId env (map_type m) n photo (Some t) s = (Resolved i, a)"
      and fa: "faults a = []" and ma: "metadatas a = metadatas s" and ia: "ignores a = ignores s"
      and oa: "open_trx a = open_trx s" and na: "next_trx a = next_trx s"
    by blast
  from attachMeta_linked [OF fa assms(4) g1, of mid] fa ma ia oa na assms(2,3) show ?thesis
    by (simp add: linked_simps)
qed

lemma promiseAll_benign:
  assumes "\<forall>p\<in>set ps. \<forall>s. I s \<longrightarrow>
             (\<exists>x s'. p s = (Resolved x, s') \<and> I s' \<and>
                metadatas s' = metadatas s \<and> ignores s' = ignores s)"
    and "I s"
  shows "\<exists>xs s'. promiseAll ps s = (Resolved xs, s') \<and> I s' \<and>
           metadatas s' = metadatas s \<and> ignores s' = ignores s"
  using assms
proof (induction ps arbitrary: s)
  case Nil
  then show ?case by simp
next
  case (Cons p ps)
  from Cons.prems obtain x s1 where p: "p s = (Resolved x, s1)" and f1: "I s1"
    and m1: "metadatas s1 = metadatas s" and i1: "ignores s1 = ignores s"
    by (metis list.set_intros(1))
  from Cons.prems(1) have "\<forall>p\<in>set ps. \<forall>s. I s \<longrightarrow>
             (\<exists>x s'. p s = (Resolved x, s') \<and> I s' \<and>
                metadatas s' = metadatas s \<and> ignores s' = ignores s)"
    by simp
  from Cons.IH [OF this f1] obtain xs s2 where r: "promiseAll ps s1 = (Resolved xs, s2)"
    and f2: "I s2" and m2: "metadatas s2 = metadatas s1" and i2: "ignores s2 = ignores s1"
    by blast
  from p r f2 m1 m2 i1 i2 show ?case by simp
qed

lemma attachAll_benign:
  assumes "faults s = []" and "t \<in> set (open_trx s)" and "t < next_trx s"
  shows "\<exists>xs s'. promiseAll (attachAll env mid info (Some t)) s = (Resolved xs, s') \<and>
           metadatas s' = metadatas s \<and> ignores s' = ignores s"
proof -
  let ?I = "\<lambda>s :: state. faults s = [] \<and> t \<in> set (open_trx s) \<and> t < next_trx s"
  have each: "\<forall>p\<in>set (attachAll env mid info (Some t)). \<forall>s. ?I s \<longrightarrow>
             (\<exists>x s'. p s = (Resolved x, s') \<and> ?I s' \<and>
                metadatas s' = metadatas s \<and> ignores s' = ignores s)"
  proof (intro ballI allI impI)
    fix p and s :: state
    assume p: "p \<in> set (attachAll env mid info (Some t))" and inv: "?I s"
    from p obtain type n photo where pe: "p = attachMeta env type mid n photo (Some t)"
      and ty: "type = ''series'' \<or> type = ''star'' \<or> type = ''tag''"
      by (auto simp: attachAll_def split: if_splits)
    from ty obtain m where m: "getTypeMapping type = Some m"
      by (auto simp: getTypeMapping_def)
    from inv have "faults s = []" and "t \<in> set (open_trx s)" and "t < next_trx s"
      by simp_all
    from attachMeta_benign [OF this m, of env mid n photo] pe
    show "\<exists>x s'. p s = (Resolved x, s') \<and> ?I s' \<and>
                metadatas s' = metadatas s \<and> ignores s' = ignores s"
      by blast
  qed
  from assms have "?I s" by simp
  from promiseAll_benign [of "attachAll env mid info (Some t)" ?I, OF each this]
  show ?thesis by blast
qed

lemma pRetry_exhausted:
  assumes "\<forall>n\<in>{1..6}. attempt n = None"
  shows "pRetry attempt 1 5 = Inl TransportError"
proof -
  have "attempt 1 = None" "attempt 2 = None" "attempt 3 = None" "attempt 4 = None"
    "attempt 5 = None" "attempt 6 = None"
    using assms by simp_all
  then show ?thesis by (simp add: eval_nat_numeral)
qed

lemma fetchNew_exhausted:
  assumes "\<forall>n\<in>{1..6}. fetch env (requestURL key) n = None"
  shows "fetchNew env key s = (Rejected TransportError, s)"
  using pRetry_exhausted [OF assms] by (simp add: fetchNew_def)

lemma wellformed_filter:
  "wellformed s \<Longrightarrow> filter (\<lambda>r. m_trx r \<noteq> Some (next_trx s)) (metadatas s) = metadatas s"
  by (auto simp: wellformed_def trxBelow_def list_all_iff split: option.splits intro!: filter_True)

text \<open>
  C3. The claim: when the fetch fails on all six attempts the caller of \<open>getMetadataId\<close>
  receives a fatal transport error. \<open>fetchNew\<close> raises the error, but the catch block of
  \<open>getMetadataId\<close> only logs it: unlike the catch blocks of \<open>getMetaId\<close> and \<open>attachMeta\<close>
  it does not rethrow, and the promise has no \<open>reject\<close>. With every attempt failing, the
  promise handed to the caller is never settled.
\<close>

theorem getMetadataId_fetch_error_lost:
  "fst (getMetadataId envDown ''ABC-001'' emptyState) = Pending"
  by code_simp

text \<open>
  On every store: for a key not yet in the store whose fetch fails on all six attempts,
  \<open>fetchNew\<close> raises the transport error, the promise of \<open>getMetadataId\<close> is never
  settled, and neither an ignore entry nor a base row is created.
\<close>

lemma getMetadataId_fetch_exhausted:
  assumes "\<forall>n\<in>{1..6}. fetch env (requestURL key) n = None"
    and "split CHR ''-'' key = cn # ci # rest"
    and "find (\<lambda>r. companyName r = cn \<and> companyId r = ci) (metadatas s) = None"
    and "wellformed s"
  shows "fetchNew env key s = (Rejected TransportError, s) \<and>
         (\<exists>s'. getMetadataId env key s = (Pending, s') \<and>
            ignores s' = ignores s \<and> metadatas s' = metadatas s)"
  using assms(2) find_filter_None [OF assms(3)] wellformed_filter [OF assms(4)]
  by (simp add: getMetadataId_def newPromise_def await_def metadatas_where_key_def query_def
      Let_def transaction_def createMetadata_def fetchNew_exhausted [OF assms(1)] rollback_def
      visible_def)

lemma ignoreKey_ok:
  "faults s = [] \<Longrightarrow>
     ignoreKey key s = (Resolved 0, s\<lparr>ops := Suc (ops s), ignores := ignores s @ [key]\<rparr>)"
  by (simp add: ignoreKey_def await_def addIgnore_def query_ok resolve_def)

lemma createMetadata_valid:
  assumes "faults s = []" and "trx \<in> set (open_trx s)" and "trx < next_trx s"
    and "fetchNew env key s = (Resolved (Some info), s)"
    and "tags info \<noteq> []" and "stars info \<noteq> []"
  shows "\<exists>row s'. createMetadata env key cn ci trx s = (Resolved (m_id row), s') \<and>
           ignores s' = ignores s \<and> metadatas s' = metadatas s @ [row] \<and>
           companyName row = cn \<and> companyId row = ci"
proof -
  let ?row = "\<lparr>m_id = nextId (map m_id (metadatas s)), m_title = title info, companyName = cn,
      companyId = ci, posterFileURL = cover info, m_releaseDate = releaseDate info,
      m_updateTime = getTime env, m_trx = Some trx\<rparr>"
  let ?s1 = "s\<lparr>ops := Suc (ops s), metadatas := metadatas s @ [?row]\<rparr>"
  have ins: "metadatas_insert (title info) cn ci (cover info) (releaseDate info) (getTime env)
      (Some trx) s = (Resolved (m_id ?row), ?s1)"
    using assms(1,2) by (simp add: metadatas_insert_def transacting_def query_ok Let_def)
  have "faults ?s1 = []" and "trx \<in> set (open_trx ?s1)" and "trx < next_trx ?s1"
    using assms(1,2,3) by simp_all
  from attachAll_benign [OF this, of env "m_id ?row" info] obtain xs s'
    where all: "promiseAll (attachAll env (m_id ?row) info (Some trx)) ?s1 = (Resolved xs, s')"
      and m: "metadatas s' = metadatas ?s1" and i: "ignores s' = ignores ?s1"
    by blast
  have "createMetadata env key cn ci trx s = (Resolved (m_id ?row), s')"
    using assms(4,5,6) ins all
    by (simp add: createMetadata_def await_def resolve_def)
  with m i show ?thesis by (intro exI [of _ ?row] exI [of _ s']) simp
qed

text \<open>
  C10. For every key not yet in the store, when the store answers its queries and the
  fetch and the extraction succeed: if the page has no info block, or no tag, or no star,
  the key is added to the ignore register, no base row is written and the caller
  receives 0; otherwise (at least one tag and at least one star) the base row of the key
  is written and the caller receives its id.
\<close>

theorem getMetadataId_unseen:
  assumes "faults s = []"
    and "split CHR ''-'' key = cn # ci # rest"
    and "find (\<lambda>r. companyName r = cn \<and> companyId r = ci) (metadatas s) = None"
    and "fetchNew env key s = (Resolved found, s)"
  shows "\<exists>r s'. getMetadataId env key s = (r, s') \<and>
           (if (case found of None \<Rightarrow> True | Some info \<Rightarrow> tags info = [] \<or> stars info = [])
            then r = Resolved 0 \<and> ignores s' = ignores s @ [key] \<and> metadatas s' = metadatas s
            else \<exists>row. r = Resolved (m_id row) \<and> ignores s' = ignores s \<and>
                   metadatas s' = metadatas s @ [row] \<and>
                   companyName row = cn \<and> companyId row = ci)"
proof -
  let ?t = "next_trx s"
  let ?s2 = "s\<lparr>ops := Suc (ops s), next_trx := Suc ?t, open_trx := ?t # open_trx s\<rparr>"
  have f2: "faults ?s2 = []" using assms(1) by simp
  have o2: "?t \<in> set (open_trx ?s2)" and n2: "?t < next_trx ?s2" by simp_all
  have fe: "fetchNew env key ?s2 = (Resolved found, ?s2)"
    using fetchNew_any [OF assms(4)] .
  have unfold: "getMetadataId env key s =
      (case createMetadata env key cn ci ?t ?s2 of
         (Resolved x, s') \<Rightarrow> (Resolved x, commit ?t s')
       | (Rejected e, s') \<Rightarrow> (Pending, rollback ?t s')
       | (Pending, s') \<Rightarrow> (Pending, s'))"
    using assms(1,2) find_filter_None [OF assms(3)]
    by (simp add: getMetadataId_def newPromise_def await_def metadatas_where_key_def query_ok
        transaction_def Let_def visible_def split: prod.splits promise.splits)
  show ?thesis
  proof (cases "case found of None \<Rightarrow> True | Some info \<Rightarrow> tags info = [] \<or> stars info = []")
    case True
    then have "createMetadata env key cn ci ?t ?s2 = ignoreKey key ?s2"
      using fe by (auto simp: createMetadata_def await_def split: option.splits)
    with True show ?thesis
      by (simp add: unfold ignoreKey_ok [OF f2] commit_def)
  next
    case False
    then obtain info where fo: "found = Some info" and t: "tags info \<noteq> []"
      and st: "stars info \<noteq> []"
      by (auto split: option.splits)
    from createMetadata_valid [OF f2 o2 n2 fe [unfolded fo] t st, of cn ci] obtain row s'
      where "createMetadata env key cn ci ?t ?s2 = (Resolved (m_id row), s')"
        and "ignores s' = ignores ?s2" and "metadatas s' = metadatas ?s2 @ [row]"
        and "companyName row = cn" and "companyId row = ci"
      by blast
    with False show ?thesis
      by (simp add: unfold commit_def)
  qed
qed

lemma step_Lookup:
  "faults s = [] \<Longrightarrow>
     getMetaId_step env type n photo trx Lookup s =
       (Continue (find (\<lambda>r. e_name r = n) (visible s e_trx (metas s type))),
        s\<lparr>ops := Suc (ops s)\<rparr>)"
  by (simp add: getMetaId_step_def metas_where_name_def query_ok visible_ops)

lemma step_Continue_Some:
  "getMetaId_step env type n photo trx (Continue (Some r)) s = (Returned (Resolved (e_id r)), s)"
  by (simp add: getMetaId_step_def getMetaId_continue_def resolve_def)

lemma four_bools:
  assumes "length sch = 4" and "length (filter id sch) = 2"
  shows "sch \<in> {[True, True, False, False], [True, False, True, False], [True, False, False, True],
                 [False, True, True, False], [False, True, False, True], [False, False, True, True]}"
proof -
  from assms(1) obtain a b c d where "sch = [a, b, c, d]"
    by (auto simp: length_Suc_conv eval_nat_numeral)
  with assms(2) show ?thesis
    by (cases a; cases b; cases c; cases d) simp_all
qed

text \<open>
  C9, as the code has it: for a name that already has its row in the table, committed and
  the only row of that name, two concurrent calls of \<open>getMetaId\<close> (each taking its two
  steps in any interleaving: a schedule of four steps, two of them steps of the first
  call) both return the id of that row and insert nothing, on a store that answers its
  queries; exactly one row with the name exists afterwards.
\<close>

theorem getMetaId_concurrent_existing:
  assumes "faults s = []"
    and "filter (\<lambda>r. e_name r = n) (metas s type) = [r]" and "committed s (e_trx r)"
    and "length sch = 4" and "length (filter id sch) = 2"
  shows "\<exists>s'.
           concurrently (getMetaId_step env type n photo trx) (getMetaId_step env type n photo' trx')
             sch (Lookup, Lookup, s) =
               (Returned (Resolved (e_id r)), Returned (Resolved (e_id r)), s') \<and>
           metas s' = metas s \<and>
           length (filter (\<lambda>r. e_name r = n) (metas s' type)) = 1"
proof -
  have f: "find (\<lambda>r. e_name r = n) (visible s e_trx (metas s type)) = Some r"
    unfolding visible_def using assms(2,3) by (rule find_filter_single)
  from four_bools [OF assms(4,5)] show ?thesis
    using assms(1,2) f
    by (elim insertE emptyE) (simp_all add: step_Lookup step_Continue_Some visible_ops)
qed

section \<open>The examples\<close>

lemma pRetry_first: "attempt n = Some r \<Longrightarrow> pRetry attempt n k = Inr r"
  by (cases k) simp_all

lemma fetch_sample: "fetchNew env0 key s = (Resolved (Some sampleInfo), s)"
  by (simp add: fetchNew_def env0_def extractFields_samplePage pRetry_first)

lemma split1: "split CHR ''-'' ''ABC-001'' = [''ABC'', ''001'']"
  by code_simp

lemma split2: "split CHR ''-'' ''ABC-002'' = [''ABC'', ''002'']"
  by code_simp

lemma env0_simps: "getProxyPrefix env0 = ''/proxy''" "getTime env0 = 0"
  by (simp_all add: env0_def)

lemmas eval_defs = env0_simps split1 split2 newPromise_def await_def metadatas_where_key_def
  query_def Let_def transaction_def createMetadata_def metadatas_insert_def attachAll_def
  attachMeta_def getTypeMapping_def getMetaId_def metas_where_name_def getMetaId_continue_def
  metas_insert_def mappings_count_def mappings_insert_def commit_def rollback_def resolve_def
  throw_def nextId_def ignoreKey_def addIgnore_def fetch_sample sampleInfo_def emptyState_def
  getMetadataById_def metadatas_where_id_def getMetaByMetadataId_def
  mappings_where_metadataId_def getMetaInfoByMetaId_def cached_def metas_where_id_def
  committed_def visible_def transacting_def getMetaId_step_def creating_def

text \<open>
  C1. The claim: \<open>getMetadataById\<close> right after \<open>getMetadataId\<close> returns the tags, stars
  and series that were attached. Two keys are created from pages that name the same
  series S1: the second record gets the junction row 2 pointing at the series 1. Reading
  the second record looks the series up by the id of the junction row (2) instead of its
  \<open>seriesId\<close> (1), finds no series 2 and returns \<open>null\<close> for the series.
\<close>

theorem getMetadataById_series_lost:
  "fst (getMetadataId env0 ''ABC-001'' emptyState) = Resolved 1 \<and>
   fst (getMetadataId env0 ''ABC-002'' afterOne) = Resolved 2 \<and>
   metas afterTwo Series =
     [\<lparr>e_id = 1, e_name = ''S1'', photoURL = None, e_updateTime = 0, e_trx = Some 1\<rparr>] \<and>
   mappings afterTwo Series =
     [\<lparr>j_id = 1, metadataId = 1, metaId = 1, j_updateTime = 0, j_trx = Some 2\<rparr>,
      \<lparr>j_id = 2, metadataId = 2, metaId = 1, j_updateTime = 0, j_trx = Some 6\<rparr>] \<and>
   fst (getMetadataById env0 2 afterTwo) =
     Resolved (Some
       \<lparr>base = \<lparr>m_id = 2, m_title = ''T'', companyName = ''ABC'', companyId = ''002'',
                 posterFileURL = ''/proxy/pics/cover/x_b.jpg'', m_releaseDate = ''2020-01-01'',
                 m_updateTime = 0, m_trx = Some 5\<rparr>,
        JAVID = ''ABC-002'',
        metaList =
          \<lparr>metas_tags = [Some \<lparr>e_id = 1, e_name = ''Drama'', photoURL = None, e_updateTime = 0,
                                 e_trx = Some 1\<rparr>],
           metas_stars = [Some \<lparr>e_id = 1, e_name = ''Jane'',
                                  photoURL = Some ''/proxy/proxy/pics/actress/j.jpg'',
                                  e_updateTime = 0, e_trx = Some 1\<rparr>],
           metas_series = None\<rparr>\<rparr>)"
  by (simp add: afterOne_def afterTwo_def getMetadataId_def eval_defs)

text \<open>
  C2. The claim: the base row and every attach run in one transaction, and a failing
  attach rolls the whole creation back. The store fails query number 6, the lookup of the
  star. The junction rows of the series and of the tag were inserted in transactions 2
  and 3, which \<open>attachMeta\<close> began and committed itself; the failed attach never settles,
  so \<open>getMetadataId\<close> never settles and transaction 1, which holds the base row, is
  neither committed nor rolled back.
\<close>

theorem getMetadataId_attach_failure_partial:
  "fst (getMetadataId env0 ''ABC-001'' (emptyState\<lparr>faults := [6]\<rparr>)) = Pending \<and>
   open_trx afterFailedAttach = [1] \<and>
   map m_trx (metadatas afterFailedAttach) = [Some 1] \<and>
   mappings afterFailedAttach Series =
     [\<lparr>j_id = 1, metadataId = 1, metaId = 1, j_updateTime = 0, j_trx = Some 2\<rparr>] \<and>
   committed afterFailedAttach (Some 2) \<and>
   mappings afterFailedAttach Stars = [] \<and>
   mappings afterFailedAttach Tags =
     [\<lparr>j_id = 1, metadataId = 1, metaId = 1, j_updateTime = 0, j_trx = Some 3\<rparr>] \<and>
   committed afterFailedAttach (Some 3)"
  by (simp add: afterFailedAttach_def getMetadataId_def eval_defs)

text \<open>
  C7. The claim: resolving the same name twice in sequence returns the same id and leaves
  one row with that name. \<open>getMetaId\<close> inserts in the caller's transaction but looks the
  name up on the plain connection, which does not see the rows of a transaction that is
  still open. Inside the open transaction of a creation, the second resolution of the new
  name Drama does not find the row the first one inserted: it inserts a second row and
  returns the id 2 where the first returned 1.
\<close>

theorem getMetaId_twice_duplicates:
  "fst (getMetaId env0 Tags ''Drama'' None (Some 1) creating) = Resolved 1 \<and>
   fst (getMetaId env0 Tags ''Drama'' None (Some 1) resolvedOnce) = Resolved 2 \<and>
   metas resolvedTwice Tags =
     [\<lparr>e_id = 1, e_name = ''Drama'', photoURL = None, e_updateTime = 0, e_trx = Some 1\<rparr>,
      \<lparr>e_id = 2, e_name = ''Drama'', photoURL = None, e_updateTime = 0, e_trx = Some 1\<rparr>]"
  by (simp add: resolvedOnce_def resolvedTwice_def eval_defs)

text \<open>
  C6. The claim: calling \<open>attachMeta\<close> twice in sequence with identical arguments leaves
  one junction row, the second call being a no-op on the junction table. Inside the open
  transaction of a creation, the second call resolves the new name Drama to a second
  entity row (the lookup of \<open>getMetaId\<close> does not see the first, uncommitted one), counts
  no junction row for the new pair and inserts a second junction row for the record.
\<close>

theorem attachMeta_twice_duplicates:
  "fst (attachMeta env0 ''tag'' 1 ''Drama'' None (Some 1) creating) = Resolved 1 \<and>
   mappings attachedOnce Tags =
     [\<lparr>j_id = 1, metadataId = 1, metaId = 1, j_updateTime = 0, j_trx = Some 2\<rparr>] \<and>
   fst (attachMeta env0 ''tag'' 1 ''Drama'' None (Some 1) attachedOnce) = Resolved 1 \<and>
   mappings attachedTwice Tags =
     [\<lparr>j_id = 1, metadataId = 1, metaId = 1, j_updateTime = 0, j_trx = Some 2\<rparr>,
      \<lparr>j_id = 2, metadataId = 1, metaId = 2, j_updateTime = 0, j_trx = Some 3\<rparr>] \<and>
   metas attachedTwice Tags =
     [\<lparr>e_id = 1, e_name = ''Drama'', photoURL = None, e_updateTime = 0, e_trx = Some 1\<rparr>,
      \<lparr>e_id = 2, e_name = ''Drama'', photoURL = None, e_updateTime = 0, e_trx = Some 1\<rparr>]"
  by (simp add: attachedOnce_def attachedTwice_def eval_defs)

text \<open>
  C9. The claim: two concurrent resolutions of the same new name return the same id and
  leave one row. Two calls made inside the open transaction of a creation, their lookups
  running before their inserts: the calls return the ids 1 and 2 and the table holds two
  rows named Drama.
\<close>

theorem getMetaId_race_counterexample:
  "fst raceResult = Returned (Resolved 1) \<and> fst (snd raceResult) = Returned (Resolved 2) \<and>
   map e_name (metas (snd (snd raceResult)) Tags) = [''Drama'', ''Drama'']"
  by (simp add: raceResult_def eval_defs)

text \<open>
  C9, as the code has it, at the store that holds the committed tag Drama while a second
  creation has begun: both calls return the id 1 and the table keeps its one row.
\<close>

theorem getMetaId_concurrent_existing_witness:
  "faults secondBegun = [] \<and>
   filter (\<lambda>r. e_name r = ''Drama'') (metas secondBegun Tags) =
     [\<lparr>e_id = 1, e_name = ''Drama'', photoURL = None, e_updateTime = 0, e_trx = Some 1\<rparr>] \<and>
   committed secondBegun (Some 1) \<and>
   (\<exists>s'.
      concurrently (getMetaId_step env0 Tags ''Drama'' None (Some 5))
        (getMetaId_step env0 Tags ''Drama'' None (Some 5))
        [True, False, True, False] (Lookup, Lookup, secondBegun) =
          (Returned (Resolved 1), Returned (Resolved 1), s') \<and>
      metas s' = metas secondBegun \<and>
      length (filter (\<lambda>r. e_name r = ''Drama'') (metas s' Tags)) = 1)"
proof -
  let ?r = "\<lparr>e_id = 1, e_name = ''Drama'', photoURL = None, e_updateTime = 0, e_trx = Some 1\<rparr>"
  have f: "faults secondBegun = []"
    by (simp add: secondBegun_def afterOne_def getMetadataId_def eval_defs)
  have u: "filter (\<lambda>r. e_name r = ''Drama'') (metas secondBegun Tags) = [?r]"
    by (simp add: secondBegun_def afterOne_def getMetadataId_def eval_defs)
  have c: "committed secondBegun (e_trx ?r)"
    by (simp add: secondBegun_def committed_def)
  have l: "length [True, False, True, False] = 4"
    "length (filter id [True, False, True, False]) = 2"
    by simp_all
  from getMetaId_concurrent_existing [OF f u c l, of env0 None "Some 5" None "Some 5"] f u c
  show ?thesis by simp
qed

lemma wellformed_emptyState: "wellformed emptyState"
  by (simp add: wellformed_def emptyState_def)

text \<open>The empty store with every attempt failing: nothing is created.\<close>

lemma getMetadataId_fetch_exhausted_example:
  "\<exists>s'. getMetadataId envDown ''ABC-001'' emptyState = (Pending, s') \<and>
         ignores s' = ignores emptyState \<and> metadatas s' = metadatas emptyState"
proof -
  have down: "\<forall>n\<in>{1..6}. fetch envDown (requestURL ''ABC-001'') n = None"
    by (simp add: envDown_def)
  have unseen:
    "find (\<lambda>r. companyName r = ''ABC'' \<and> companyId r = ''001'') (metadatas emptyState) = None"
    by (simp add: emptyState_def)
  from getMetadataId_fetch_exhausted [OF down split1 unseen wellformed_emptyState]
  show ?thesis by simp
qed

text \<open>C8 at the store that holds the record 1 only, read at id 2.\<close>

theorem getMetadataById_not_found_witness:
  "find (\<lambda>r. m_id r = 2) (metadatas afterOne) = None \<and>
   ops afterOne \<notin> set (faults afterOne) \<and>
   fst (getMetadataById env0 2 afterOne) = Resolved None"
proof -
  have a: "find (\<lambda>r. m_id r = 2) (metadatas afterOne) = None"
    by (simp add: afterOne_def getMetadataId_def eval_defs)
  have b: "ops afterOne \<notin> set (faults afterOne)"
    by (simp add: afterOne_def getMetadataId_def eval_defs)
  from getMetadataById_not_found [OF a b, of env0] a b show ?thesis by simp
qed

lemma fetch_noTags:
  "fetchNew envNoTags key s =
     (Resolved (Some \<lparr>title = ''B'', cover = ''/cover/b.jpg'', studio = [], series = [], tags = [],
                stars = [], releaseDate = []\<rparr>), s)"
  by (simp add: fetchNew_def envNoTags_def extractFields_pageTwoCovers pRetry_first)

text \<open>
  C10 at the empty store, for a page without tags and stars (ignored) and for the sample
  page (persisted).
\<close>

theorem getMetadataId_unseen_witness:
  "faults emptyState = [] \<and>
   split CHR ''-'' ''ABC-001'' = [''ABC'', ''001''] \<and>
   find (\<lambda>r. companyName r = ''ABC'' \<and> companyId r = ''001'') (metadatas emptyState) = None \<and>
   fetchNew envNoTags ''ABC-001'' emptyState =
     (Resolved (Some \<lparr>title = ''B'', cover = ''/cover/b.jpg'', studio = [], series = [], tags = [],
                stars = [], releaseDate = []\<rparr>), emptyState) \<and>
   (\<exists>r s'. getMetadataId envNoTags ''ABC-001'' emptyState = (r, s') \<and> r = Resolved 0 \<and>
      ignores s' = ignores emptyState @ [''ABC-001''] \<and> metadatas s' = metadatas emptyState) \<and>
   fetchNew env0 ''ABC-001'' emptyState = (Resolved (Some sampleInfo), emptyState) \<and>
   (\<exists>r s' row. getMetadataId env0 ''ABC-001'' emptyState = (r, s') \<and> r = Resolved (m_id row) \<and>
      ignores s' = ignores emptyState \<and> metadatas s' = metadatas emptyState @ [row] \<and>
      companyName row = ''ABC'' \<and> companyId row = ''001'')"
proof -
  have f: "faults emptyState = []" by (simp add: emptyState_def)
  have unseen:
    "find (\<lambda>r. companyName r = ''ABC'' \<and> companyId r = ''001'') (metadatas emptyState) = None"
    by (simp add: emptyState_def)
  have t: "tags sampleInfo \<noteq> []" "stars sampleInfo \<noteq> []" by (simp_all add: sampleInfo_def)
  from getMetadataId_unseen [OF f split1 unseen fetch_noTags]
    getMetadataId_unseen [OF f split1 unseen fetch_sample] f split1 unseen t
    fetch_noTags [of "''ABC-001''" emptyState] fetch_sample [of "''ABC-001''" emptyState]
  show ?thesis by simp
qed

end
